theory Spec2Isabelle
  imports Complex_Main
begin

text \<open>
  The analysis pipeline of the application: the class \<open>StockfishEngine\<close>
  (\<open>lib/chess/engine.ts\<close>), which talks to a UCI engine in a web worker, and the class
  \<open>GameAnalyzer\<close>, which walks a game and classifies the moves of one player.

  JavaScript numbers are modelled as exact reals and integers: a finite double is read
  as the real it denotes, and where the code rounds a difference, a product or a
  quotient the model keeps the exact value. The code negates, subtracts, divides by 100,
  compares against constants and applies one linear formula; values that are not finite
  are outside the model.
\<close>

section \<open>The engine adapter (StockfishEngine)\<close>

subsection \<open>Strings and the four patterns of the message handler\<close>

text \<open>
  Messages are strings of code units below 256. A pattern without anchors is tried at
  every position from the left and the first position that matches wins;
  \<open>firstMatch\<close> does that for a function that matches at the head of a string.
\<close>

definition startsWith :: "string \<Rightarrow> string \<Rightarrow> bool" where
  "startsWith s p = (take (length p) s = p)"

fun stripPrefix :: "string \<Rightarrow> string \<Rightarrow> string option" where
  "stripPrefix [] s = Some s"
| "stripPrefix (p # ps) [] = None"
| "stripPrefix (p # ps) (c # cs) = (if p = c then stripPrefix ps cs else None)"

fun firstMatch :: "(string \<Rightarrow> 'a option) \<Rightarrow> string \<Rightarrow> 'a option" where
  "firstMatch m [] = m []"
| "firstMatch m (c # cs) =
     (case m (c # cs) of Some r \<Rightarrow> Some r | None \<Rightarrow> firstMatch m cs)"

definition isDigit :: "char \<Rightarrow> bool" where
  "isDigit c = (c \<in> set ''0123456789'')"

text \<open>White space of \<open>\S\<close> and the line terminators that \<open>.\<close> refuses, among code units below 256.\<close>

definition isSpace :: "char \<Rightarrow> bool" where
  "isSpace c = (c \<in> {char_of (9::nat), char_of (10::nat), char_of (11::nat),
                     char_of (12::nat), char_of (13::nat), CHR '' '', char_of (160::nat)})"

definition isLineTerminator :: "char \<Rightarrow> bool" where
  "isLineTerminator c = (c \<in> {char_of (10::nat), char_of (13::nat)})"

text \<open>The value of a decimal digit is its code minus the code of \<open>0\<close>.\<close>

definition digitVal :: "char \<Rightarrow> nat" where
  "digitVal c = of_char c - 48"

text \<open>
  \<open>parseInt\<close> on a string of the shape \<open>-?\d+\<close>, the only shape the handler passes to
  it; the result is the exact integer.
\<close>

definition parseNat :: "string \<Rightarrow> nat" where
  "parseNat ds = foldl (\<lambda>n c. 10 * n + digitVal c) 0 ds"

definition parseInt :: "string \<Rightarrow> int" where
  "parseInt v =
     (case v of
        [] \<Rightarrow> 0
      | c # cs \<Rightarrow> if c = CHR ''-'' then - int (parseNat cs) else int (parseNat (c # cs)))"

text \<open>\<open>/depth (\d+)/\<close> at the head of a string: the captured digits.\<close>

definition depthAt :: "string \<Rightarrow> string option" where
  "depthAt s =
     (case stripPrefix ''depth '' s of
        None \<Rightarrow> None
      | Some r \<Rightarrow> (let ds = takeWhile isDigit r in if ds = [] then None else Some ds))"

text \<open>\<open>/score (cp|mate) (-?\d+)/\<close> at the head of a string: the two captured groups.\<close>

definition scoreAt :: "string \<Rightarrow> (string \<times> string) option" where
  "scoreAt s =
     (case stripPrefix ''score '' s of
        None \<Rightarrow> None
      | Some r \<Rightarrow>
          (case (case stripPrefix ''cp'' r of
                   Some r1 \<Rightarrow> Some (''cp'', r1)
                 | None \<Rightarrow>
                     (case stripPrefix ''mate'' r of
                        Some r1 \<Rightarrow> Some (''mate'', r1)
                      | None \<Rightarrow> None)) of
             None \<Rightarrow> None
           | Some (ty, r1) \<Rightarrow>
               (case stripPrefix '' '' r1 of
                  None \<Rightarrow> None
                | Some r2 \<Rightarrow>
                    (let (sgn, r3) = (case stripPrefix ''-'' r2 of
                                        Some t \<Rightarrow> (''-'', t)
                                      | None \<Rightarrow> ([], r2));
                         ds = takeWhile isDigit r3
                     in if ds = [] then None else Some (ty, sgn @ ds)))))"

text \<open>\<open>/pv (.+)/\<close> at the head of a string.\<close>

definition pvAt :: "string \<Rightarrow> string option" where
  "pvAt s =
     (case stripPrefix ''pv '' s of
        None \<Rightarrow> None
      | Some r \<Rightarrow>
          (let t = takeWhile (\<lambda>c. \<not> isLineTerminator c) r
           in if t = [] then None else Some t))"

text \<open>\<open>/bestmove (\S+)/\<close> at the head of a string.\<close>

definition bestmoveAt :: "string \<Rightarrow> string option" where
  "bestmoveAt s =
     (case stripPrefix ''bestmove '' s of
        None \<Rightarrow> None
      | Some r \<Rightarrow>
          (let t = takeWhile (\<lambda>c. \<not> isSpace c) r
           in if t = [] then None else Some t))"

text \<open>\<open>split(' ')\<close>.\<close>

fun splitSpace :: "string \<Rightarrow> string list" where
  "splitSpace [] = [[]]"
| "splitSpace (c # cs) =
     (if c = CHR '' '' then [] # splitSpace cs
      else (case splitSpace cs of
              w # ws \<Rightarrow> (c # w) # ws
            | [] \<Rightarrow> [[c]]))"

text \<open>Decimal digits of a natural number, for the interpolation of \<open>depth\<close> into \<open>go depth\<close>.\<close>

fun showDigits :: "nat \<Rightarrow> nat \<Rightarrow> string \<Rightarrow> string" where
  "showDigits 0 n acc = acc"
| "showDigits (Suc k) n acc =
     (if n < 10 then (''0123456789'' ! n) # acc
      else showDigits k (n div 10) ((''0123456789'' ! (n mod 10)) # acc))"

definition showNat :: "nat \<Rightarrow> string" where
  "showNat n = showDigits (Suc n) n []"

subsection \<open>The message handler of one \<open>analyze\<close> call\<close>

text \<open>The interface \<open>EngineMove\<close>, the value an \<open>analyze\<close> promise is fulfilled with.\<close>

record EngineMove =
  move :: string
  evaluation :: real
  mate :: "int option"
  depth :: nat
  pv :: "string list"

text \<open>
  The closure \<open>messageHandler\<close> with the variables it captures; \<open>h_promise\<close> is the
  number of the promise its \<open>resolve\<close> belongs to.
\<close>

record handler =
  h_promise :: nat
  h_bestMove :: string
  h_evaluation :: real
  h_mate :: "int option"
  h_currentDepth :: nat
  h_pv :: "string list"

datatype outcome = Resolve EngineMove | Requeue | Dropped

definition newHandler :: "nat \<Rightarrow> handler" where
  "newHandler k =
     \<lparr>h_promise = k, h_bestMove = [], h_evaluation = 0, h_mate = None,
      h_currentDepth = 0, h_pv = []\<rparr>"

text \<open>The block under \<open>if (message.startsWith('info depth'))\<close>.\<close>

definition onInfo :: "string \<Rightarrow> handler \<Rightarrow> handler" where
  "onInfo message h =
     (let h1 = (case firstMatch depthAt message of
                  Some d \<Rightarrow> h\<lparr>h_currentDepth := parseNat d\<rparr>
                | None \<Rightarrow> h);
          h2 = (case firstMatch scoreAt message of
                  Some (ty, v) \<Rightarrow>
                    if ty = ''cp'' then h1\<lparr>h_evaluation := real_of_int (parseInt v) / 100\<rparr>
                    else if ty = ''mate''
                    then h1\<lparr>h_mate := Some (parseInt v),
                            h_evaluation := (if parseInt v > 0 then 100 else - 100)\<rparr>
                    else h1
                | None \<Rightarrow> h1);
          h3 = (case firstMatch pvAt message of
                  Some t \<Rightarrow> h2\<lparr>h_pv := splitSpace t\<rparr>
                | None \<Rightarrow> h2)
      in h3)"

definition messageHandler :: "string \<Rightarrow> handler \<Rightarrow> handler \<times> outcome" where
  "messageHandler message h =
     (let h1 = (if startsWith message ''info depth'' then onInfo message h else h)
      in if startsWith message ''bestmove''
         then (case firstMatch bestmoveAt message of
                 Some m \<Rightarrow>
                   (h1\<lparr>h_bestMove := m\<rparr>,
                    Resolve \<lparr>move = m, evaluation = h_evaluation h1, mate = h_mate h1,
                             depth = h_currentDepth h1, pv = h_pv h1\<rparr>)
               | None \<Rightarrow> (h1, Dropped))
         else (h1, Requeue))"

subsection \<open>The engine object and the event loop around it\<close>

text \<open>
  A promise is pending, fulfilled with a value or rejected with a reason. The record
  \<open>engine\<close> has the three fields of the class and, after them, what the class acts on:
  whether \<open>window\<close> is defined, how many \<open>Worker\<close> objects were constructed, which of them
  were terminated, every \<open>postMessage\<close> in order with the worker that received it, the
  workers whose \<open>initialize\<close> promise is resolved, the \<open>analyze\<close> calls suspended at
  \<open>await this.initialize()\<close> with the worker they wait for, and the promise of every
  \<open>analyze\<close> call so far.
\<close>

datatype 'a promise = Pending | Fulfilled 'a | Rejected string

record engine =
  worker :: "nat option"
  ready :: bool
  messageQueue :: "handler list"
  window :: bool
  workers :: nat
  terminated :: "nat list"
  posted :: "(nat \<times> string) list"
  initResolved :: "nat list"
  waiting :: "(nat \<times> nat \<times> string \<times> nat) list"
  promises :: "EngineMove promise list"

definition newEngine :: "bool \<Rightarrow> engine" where
  "newEngine win =
     \<lparr>worker = None, ready = False, messageQueue = [], window = win, workers = 0,
      terminated = [], posted = [], initResolved = [], waiting = [], promises = []\<rparr>"

definition send :: "string \<Rightarrow> engine \<Rightarrow> engine" where
  "send command e =
     (case worker e of
        Some w \<Rightarrow> e\<lparr>posted := posted e @ [(w, command)]\<rparr>
      | None \<Rightarrow> e)"

text \<open>
  \<open>initialize\<close> up to its \<open>await\<close>-able promise: nothing without \<open>window\<close>; otherwise a
  new worker replaces \<open>this.worker\<close>, its \<open>onmessage\<close> is the function \<open>onmessage\<close> below,
  and \<open>uci\<close> is sent to it.
\<close>

definition initialize :: "engine \<Rightarrow> engine" where
  "initialize e =
     (if \<not> window e then e
      else send ''uci'' (e\<lparr>worker := Some (workers e), workers := workers e + 1\<rparr>))"

text \<open>The executor of the promise that \<open>analyze\<close> returns, for the promise numbered \<open>k\<close>.\<close>

definition executor :: "nat \<Rightarrow> string \<Rightarrow> nat \<Rightarrow> engine \<Rightarrow> engine" where
  "executor k fenStr dep e =
     send (''go depth '' @ showNat dep)
       (send (''position fen '' @ fenStr)
          (e\<lparr>messageQueue := messageQueue e @ [newHandler k]\<rparr>))"

text \<open>
  A call of \<open>analyze\<close>. When the engine is ready the executor runs within the call. When
  it is not, \<open>initialize\<close> runs within the call and the rest waits for its promise:
  without \<open>window\<close> that promise is resolved at once and the executor runs before any
  other event; with \<open>window\<close> the call is suspended until the new worker says \<open>uciok\<close>.
\<close>

definition analyze :: "string \<Rightarrow> nat \<Rightarrow> engine \<Rightarrow> engine" where
  "analyze fenStr dep e =
     (let k = length (promises e);
          e0 = e\<lparr>promises := promises e @ [Pending]\<rparr>
      in if ready e0 then executor k fenStr dep e0
         else if \<not> window e0 then executor k fenStr dep e0
         else (initialize e0)\<lparr>waiting := waiting e0 @ [(workers e0, k, fenStr, dep)]\<rparr>)"

definition terminate :: "engine \<Rightarrow> engine" where
  "terminate e =
     (case worker e of
        Some w \<Rightarrow> e\<lparr>terminated := w # terminated e, worker := None, ready := False\<rparr>
      | None \<Rightarrow> e)"

definition fulfil :: "nat \<Rightarrow> EngineMove \<Rightarrow> EngineMove promise list \<Rightarrow> EngineMove promise list" where
  "fulfil k r ps = (if k < length ps \<and> ps ! k = Pending then ps[k := Fulfilled r] else ps)"

text \<open>The last block of \<open>onmessage\<close>: the handler at the head of the queue gets the message.\<close>

definition dispatch :: "string \<Rightarrow> engine \<Rightarrow> engine" where
  "dispatch message e =
     (case messageQueue e of
        [] \<Rightarrow> e
      | h # q \<Rightarrow>
          (case messageHandler message h of
             (h1, Resolve r) \<Rightarrow> e\<lparr>messageQueue := q, promises := fulfil (h_promise h1) r (promises e)\<rparr>
           | (h1, Requeue) \<Rightarrow> e\<lparr>messageQueue := q @ [h1]\<rparr>
           | (h1, Dropped) \<Rightarrow> e\<lparr>messageQueue := q\<rparr>))"

text \<open>The suspended \<open>analyze\<close> calls that wait for worker \<open>w\<close> resume, in the order of the calls.\<close>

fun resume :: "(nat \<times> nat \<times> string \<times> nat) list \<Rightarrow> engine \<Rightarrow> engine" where
  "resume [] e = e"
| "resume ((w, k, fenStr, dep) # rest) e = resume rest (executor k fenStr dep e)"

text \<open>
  A message of worker \<open>w\<close>: the body of \<open>onmessage\<close>, then, when this message resolved the
  promise of \<open>initialize\<close> for \<open>w\<close>, the calls that awaited it.
\<close>

definition onmessage :: "nat \<Rightarrow> string \<Rightarrow> engine \<Rightarrow> engine" where
  "onmessage w message e =
     (let e1 = (if message = ''uciok''
                then (send ''setoption name Hash value 128''
                       (send ''setoption name Threads value 2'' (e\<lparr>ready := True\<rparr>)))
                     \<lparr>initResolved := (if w \<in> set (initResolved e) then initResolved e
                                       else w # initResolved e)\<rparr>
                else e);
          e2 = dispatch message e1
      in if message = ''uciok'' \<and> w \<notin> set (initResolved e)
         then resume (filter (\<lambda>x. fst x = w) (waiting e2))
                (e2\<lparr>waiting := filter (\<lambda>x. fst x \<noteq> w) (waiting e2)\<rparr>)
         else e2)"

text \<open>
  What can happen to the engine: a call of one of its methods, or a message from a
  worker that was constructed and not terminated.
\<close>

datatype event = Initialize | Analyze string nat | Terminate | WorkerMessage nat string

fun step :: "engine \<Rightarrow> event \<Rightarrow> engine" where
  "step e Initialize = initialize e"
| "step e (Analyze fenStr dep) = analyze fenStr dep e"
| "step e Terminate = terminate e"
| "step e (WorkerMessage w message) =
     (if w < workers e \<and> w \<notin> set (terminated e) then onmessage w message e else e)"

definition run :: "event list \<Rightarrow> engine \<Rightarrow> engine" where
  "run evs e = foldl step e evs"

text \<open>\<open>evaluatePosition\<close> and \<open>getBestMove\<close> await \<open>analyze\<close> and keep one field.\<close>

definition evaluatePosition :: "EngineMove promise \<Rightarrow> real promise" where
  "evaluatePosition p =
     (case p of Pending \<Rightarrow> Pending | Fulfilled r \<Rightarrow> Fulfilled (evaluation r) | Rejected x \<Rightarrow> Rejected x)"

definition getBestMove :: "EngineMove promise \<Rightarrow> string promise" where
  "getBestMove p =
     (case p of Pending \<Rightarrow> Pending | Fulfilled r \<Rightarrow> Fulfilled (move r) | Rejected x \<Rightarrow> Rejected x)"

section \<open>The game analyzer (GameAnalyzer)\<close>

text \<open>
  The chess library and the engine are outside the analyzer; what they hand to one
  iteration of the loop of \<open>analyzeGame\<close> is collected in the record \<open>ply\<close>, one record
  for each element of \<open>history\<close>.
\<close>

datatype color = White | Black

datatype severity = Blunder | Mistake | Inaccuracy

datatype phase = Opening | Middlegame | Endgame

record MistakeAnalysis =
  moveNumber :: nat
  fen :: string
  playedMove :: string
  bestMove :: string
  m_evaluation :: real
  m_previousEval :: real
  m_severity :: severity
  m_phase :: phase
  explanation :: string

record PhaseStats =
  accuracy :: real
  moves :: nat

record GameAnalysis =
  averageAccuracy :: real
  blunders :: nat
  mistakes :: nat
  inaccuracies :: nat
  brilliantMoves :: nat
  mistakesList :: "MistakeAnalysis list"
  openingPhase :: PhaseStats
  middlegamePhase :: PhaseStats
  endgamePhase :: PhaseStats

text \<open>
  One element of \<open>history\<close> with everything the loop body reads for it: the SAN of the
  move, \<open>chess.fen()\<close> before the move, the value \<open>engine.analyze(fenBeforeMove, 15)\<close>
  resolved with, the value \<open>engine.evaluatePosition(fenAfterMove, 12)\<close> resolved with,
  and the number of non-empty squares of \<open>chess.board()\<close> after the move.
\<close>

record ply =
  san :: string
  fenBeforeMove :: string
  analysis :: EngineMove
  evalAfterMove :: real
  pieces :: nat

text \<open>The local variables of \<open>analyzeGame\<close> that the loop updates.\<close>

record vars =
  v_blunders :: nat
  v_mistakes :: nat
  v_inaccuracies :: nat
  v_brilliantMoves :: nat
  v_mistakesList :: "MistakeAnalysis list"
  v_previousEval :: real
  v_totalMoves :: nat
  v_totalAccuracy :: real
  v_phases :: "phase \<Rightarrow> PhaseStats"

definition determinePhase :: "nat \<Rightarrow> nat \<Rightarrow> phase" where
  "determinePhase moveNo pcs =
     (if moveNo \<le> 10 then Opening
      else if pcs \<le> 12 then Endgame
      else Middlegame)"

definition classifyMistake :: "real \<Rightarrow> severity option" where
  "classifyMistake evalDrop =
     (if \<bar>evalDrop\<bar> \<ge> 3 then Some Blunder
      else if \<bar>evalDrop\<bar> \<ge> 3 / 2 then Some Mistake
      else if \<bar>evalDrop\<bar> \<ge> 1 / 2 then Some Inaccuracy
      else None)"

text \<open>
  \<open>generateExplanation\<close>. The formatting \<open>Math.abs(evalDrop).toFixed(1)\<close> is a builtin
  of the language working on the binary representation of the number; it is the
  parameter \<open>fmt\<close> of the functions below.
\<close>

definition generateExplanation :: "(real \<Rightarrow> string) \<Rightarrow> string \<Rightarrow> real \<Rightarrow> severity \<Rightarrow> string" where
  "generateExplanation fmt best evalDrop sev =
     (case sev of
        Blunder \<Rightarrow>
          ''This move loses significant material or position. The evaluation dropped by ''
          @ fmt \<bar>evalDrop\<bar> @ '' pawns. Consider '' @ best @ '' instead.''
      | Mistake \<Rightarrow>
          ''This move gives away an advantage. A better continuation was ''
          @ best @ '', maintaining your position.''
      | Inaccuracy \<Rightarrow>
          ''Not the most precise move. '' @ best @ '' would have been slightly better.'')"

definition isPlayerMove :: "color \<Rightarrow> nat \<Rightarrow> bool" where
  "isPlayerMove playerColor i =
     ((playerColor = White \<and> i mod 2 = 0) \<or> (playerColor = Black \<and> i mod 2 = 1))"

text \<open>\<open>playerColor === 'white' ? e : -e\<close>, used for both adjusted evaluations.\<close>

definition adjust :: "color \<Rightarrow> real \<Rightarrow> real" where
  "adjust playerColor e = (if playerColor = White then e else - e)"

text \<open>\<open>evalDrop = adjustedPrevEval - adjustedCurrentEval\<close>.\<close>

definition evalDropOf :: "color \<Rightarrow> real \<Rightarrow> real \<Rightarrow> real" where
  "evalDropOf playerColor previousEval evalAfter =
     adjust playerColor previousEval - adjust playerColor evalAfter"

text \<open>\<open>moveAccuracy\<close>: 100, lowered to \<open>Math.max(0, 100 - evalDrop * 20)\<close> when \<open>evalDrop > 0\<close>.\<close>

definition moveAccuracyOf :: "real \<Rightarrow> real" where
  "moveAccuracyOf evalDrop = (if evalDrop > 0 then max 0 (100 - evalDrop * 20) else 100)"

definition bump :: "(phase \<Rightarrow> PhaseStats) \<Rightarrow> phase \<Rightarrow> real \<Rightarrow> (phase \<Rightarrow> PhaseStats)" where
  "bump phases ph acc =
     phases(ph := \<lparr>accuracy = accuracy (phases ph) + acc, moves = moves (phases ph) + 1\<rparr>)"

text \<open>The loop body for an index that belongs to the tracked player.\<close>

definition playerPly :: "(real \<Rightarrow> string) \<Rightarrow> color \<Rightarrow> nat \<Rightarrow> ply \<Rightarrow> vars \<Rightarrow> vars" where
  "playerPly fmt playerColor i p s =
     (let best = move (analysis p);
          currentEval = evaluation (analysis p);
          adjustedPrevEval = adjust playerColor (v_previousEval s);
          adjustedCurrentEval = adjust playerColor (evalAfterMove p);
          evalDrop = evalDropOf playerColor (v_previousEval s) (evalAfterMove p);
          ph = determinePhase (i div 2 + 1) (pieces p);
          moveAccuracy = moveAccuracyOf evalDrop;
          s1 = s\<lparr>v_totalAccuracy := v_totalAccuracy s + moveAccuracy,
                 v_totalMoves := v_totalMoves s + 1,
                 v_phases := bump (v_phases s) ph moveAccuracy\<rparr>;
          s2 = (case classifyMistake evalDrop of
                  Some sev \<Rightarrow>
                    (case sev of
                       Blunder \<Rightarrow> s1\<lparr>v_blunders := v_blunders s1 + 1\<rparr>
                     | Mistake \<Rightarrow> s1\<lparr>v_mistakes := v_mistakes s1 + 1\<rparr>
                     | Inaccuracy \<Rightarrow> s1\<lparr>v_inaccuracies := v_inaccuracies s1 + 1\<rparr>)
                    \<lparr>v_mistakesList := v_mistakesList s1 @
                       [\<lparr>moveNumber = i div 2 + 1,
                         fen = fenBeforeMove p,
                         playedMove = san p,
                         bestMove = best,
                         m_evaluation = adjustedCurrentEval,
                         m_previousEval = adjustedPrevEval,
                         m_severity = sev,
                         m_phase = ph,
                         explanation = generateExplanation fmt best evalDrop sev\<rparr>]\<rparr>
                | None \<Rightarrow>
                    (if evalDrop < - 1
                     then s1\<lparr>v_brilliantMoves := v_brilliantMoves s1 + 1\<rparr>
                     else s1))
      in s2\<lparr>v_previousEval := evalAfterMove p\<rparr>)"

text \<open>The \<open>for\<close> loop from index \<open>i\<close> over the rest of \<open>history\<close>.\<close>

fun loop :: "(real \<Rightarrow> string) \<Rightarrow> color \<Rightarrow> nat \<Rightarrow> ply list \<Rightarrow> vars \<Rightarrow> vars" where
  "loop fmt playerColor i [] s = s"
| "loop fmt playerColor i (p # ps) s =
     (if \<not> isPlayerMove playerColor i
      then loop fmt playerColor (i + 1) ps s
      else loop fmt playerColor (i + 1) ps (playerPly fmt playerColor i p s))"

definition initialVars :: vars where
  "initialVars =
     \<lparr>v_blunders = 0, v_mistakes = 0, v_inaccuracies = 0, v_brilliantMoves = 0,
      v_mistakesList = [], v_previousEval = 0, v_totalMoves = 0, v_totalAccuracy = 0,
      v_phases = (\<lambda>_. \<lparr>accuracy = 0, moves = 0\<rparr>)\<rparr>"

definition finalPhase :: "PhaseStats \<Rightarrow> PhaseStats" where
  "finalPhase b =
     \<lparr>accuracy = (if moves b > 0 then accuracy b / real (moves b) else 0), moves = moves b\<rparr>"

definition report :: "vars \<Rightarrow> GameAnalysis" where
  "report s =
     \<lparr>averageAccuracy =
        (if v_totalMoves s > 0 then v_totalAccuracy s / real (v_totalMoves s) else 0),
      blunders = v_blunders s,
      mistakes = v_mistakes s,
      inaccuracies = v_inaccuracies s,
      brilliantMoves = v_brilliantMoves s,
      mistakesList = v_mistakesList s,
      openingPhase = finalPhase (v_phases s Opening),
      middlegamePhase = finalPhase (v_phases s Middlegame),
      endgamePhase = finalPhase (v_phases s Endgame)\<rparr>"

text \<open>
  \<open>analyzeGame\<close> on a game whose replay gave \<open>history\<close> and whose engine calls all
  resolved with the values recorded in the plies.
\<close>

definition analyzeGame :: "(real \<Rightarrow> string) \<Rightarrow> ply list \<Rightarrow> color \<Rightarrow> GameAnalysis" where
  "analyzeGame fmt history playerColor =
     report (loop fmt playerColor 0 history initialVars)"


section \<open>Properties of the analyzer\<close>

lemma classifyMistake_None_iff: "classifyMistake d = None \<longleftrightarrow> \<bar>d\<bar> < 1 / 2"
  by (simp add: classifyMistake_def)

lemma playerPly_brilliant:
  "v_brilliantMoves (playerPly f c i p s) = v_brilliantMoves s"
proof (cases "classifyMistake (evalDropOf c (v_previousEval s) (evalAfterMove p))")
  case None
  then have "\<not> evalDropOf c (v_previousEval s) (evalAfterMove p) < - 1"
    by (simp add: classifyMistake_None_iff)
  with None show ?thesis
    by (simp add: playerPly_def Let_def)
next
  case (Some sev)
  then show ?thesis
    by (cases sev) (simp_all add: playerPly_def Let_def)
qed

lemma loop_brilliant:
  "v_brilliantMoves (loop f c i ps s) = v_brilliantMoves s"
  by (induction ps arbitrary: i s) (simp_all add: playerPly_brilliant)


lemma playerPly_totalAccuracy:
  "v_totalAccuracy (playerPly f c i p s) =
     v_totalAccuracy s + moveAccuracyOf (evalDropOf c (v_previousEval s) (evalAfterMove p))"
  by (simp add: playerPly_def Let_def split: option.split severity.split)

lemma playerPly_phases:
  "v_phases (playerPly f c i p s) =
     bump (v_phases s) (determinePhase (i div 2 + 1) (pieces p))
       (moveAccuracyOf (evalDropOf c (v_previousEval s) (evalAfterMove p)))"
  by (simp add: playerPly_def Let_def split: option.split severity.split)


lemma playerPly_counters:
  "v_blunders (playerPly f c i p s) =
     v_blunders s +
     (if classifyMistake (evalDropOf c (v_previousEval s) (evalAfterMove p)) = Some Blunder
      then 1 else 0)"
  "v_mistakes (playerPly f c i p s) =
     v_mistakes s +
     (if classifyMistake (evalDropOf c (v_previousEval s) (evalAfterMove p)) = Some Mistake
      then 1 else 0)"
  "v_inaccuracies (playerPly f c i p s) =
     v_inaccuracies s +
     (if classifyMistake (evalDropOf c (v_previousEval s) (evalAfterMove p)) = Some Inaccuracy
      then 1 else 0)"
  by (simp_all add: playerPly_def Let_def split: option.split severity.split)




lemma evalDropOf_flip: "evalDropOf Black (- a) (- b) = evalDropOf White a b"
  by (simp add: evalDropOf_def adjust_def)



text \<open>
  Claim C2. The severity depends on the absolute value of the drop alone: 3 or more is a
  blunder, from 1.5 up to 3 a mistake, from 0.5 up to 1.5 an inaccuracy, and below 0.5
  there is none. The loop counts the ply under the severity so found.
\<close>

theorem classifyMistake_tiers:
  "(3 \<le> \<bar>d\<bar> \<longrightarrow> classifyMistake d = Some Blunder) \<and>
   (3 / 2 \<le> \<bar>d\<bar> \<and> \<bar>d\<bar> < 3 \<longrightarrow> classifyMistake d = Some Mistake) \<and>
   (1 / 2 \<le> \<bar>d\<bar> \<and> \<bar>d\<bar> < 3 / 2 \<longrightarrow> classifyMistake d = Some Inaccuracy) \<and>
   (\<bar>d\<bar> < 1 / 2 \<longrightarrow> classifyMistake d = None) \<and>
   v_blunders (playerPly fmt c i p s) =
     v_blunders s +
     (if classifyMistake (evalDropOf c (v_previousEval s) (evalAfterMove p)) = Some Blunder
      then 1 else 0) \<and>
   v_mistakes (playerPly fmt c i p s) =
     v_mistakes s +
     (if classifyMistake (evalDropOf c (v_previousEval s) (evalAfterMove p)) = Some Mistake
      then 1 else 0) \<and>
   v_inaccuracies (playerPly fmt c i p s) =
     v_inaccuracies s +
     (if classifyMistake (evalDropOf c (v_previousEval s) (evalAfterMove p)) = Some Inaccuracy
      then 1 else 0)"
proof -
  have "(3 \<le> \<bar>d\<bar> \<longrightarrow> classifyMistake d = Some Blunder) \<and>
   (3 / 2 \<le> \<bar>d\<bar> \<and> \<bar>d\<bar> < 3 \<longrightarrow> classifyMistake d = Some Mistake) \<and>
   (1 / 2 \<le> \<bar>d\<bar> \<and> \<bar>d\<bar> < 3 / 2 \<longrightarrow> classifyMistake d = Some Inaccuracy) \<and>
   (\<bar>d\<bar> < 1 / 2 \<longrightarrow> classifyMistake d = None)"
    by (simp add: classifyMistake_def)
  then show ?thesis
    by (simp only: playerPly_counters simp_thms)
qed

theorem classifyMistake_tiers_witness:
  "classifyMistake 3 = Some Blunder \<and> classifyMistake (- 3 / 2) = Some Mistake \<and>
   classifyMistake (1 / 2) = Some Inaccuracy \<and> classifyMistake (- 49 / 100) = None"
  using classifyMistake_tiers [of 3] classifyMistake_tiers [of "- 3 / 2"]
    classifyMistake_tiers [of "1 / 2"] classifyMistake_tiers [of "- 49 / 100"]
  by simp

text \<open>
  Claim C3. The accuracy of a ply is 100 when the drop is at most 0 and
  \<open>max 0 (100 - 20 * drop)\<close> when it is positive; so it is exactly 100 for every drop
  that is not positive and does not increase when a positive drop grows. The loop adds
  this value to the running total.
\<close>

theorem moveAccuracy_formula:
  "moveAccuracyOf d = (if d \<le> 0 then 100 else max 0 (100 - d * 20)) \<and>
   (d \<le> 0 \<longrightarrow> moveAccuracyOf d = 100) \<and>
   (0 < d \<and> d \<le> d' \<longrightarrow> moveAccuracyOf d' \<le> moveAccuracyOf d) \<and>
   v_totalAccuracy (playerPly fmt c i p s) =
     v_totalAccuracy s + moveAccuracyOf (evalDropOf c (v_previousEval s) (evalAfterMove p))"
proof -
  have mono: "0 < d \<and> d \<le> d' \<longrightarrow> moveAccuracyOf d' \<le> moveAccuracyOf d"
    by (auto simp: moveAccuracyOf_def)
  show ?thesis
    using mono by (simp add: moveAccuracyOf_def playerPly_totalAccuracy)
qed

theorem moveAccuracy_formula_witness:
  "moveAccuracyOf (- 1) = 100 \<and> moveAccuracyOf 2 \<le> moveAccuracyOf 1 \<and>
   moveAccuracyOf 1 = 80 \<and> moveAccuracyOf 6 = 0"
  using moveAccuracy_formula [of "- 1"] moveAccuracy_formula [of 1 2]
    moveAccuracy_formula [of 6]
  by simp

text \<open>
  Claim C7. The phase of the ply with index \<open>i\<close> is a function of the move number
  \<open>i div 2 + 1\<close> and of the number of pieces left: opening up to move 10, after that
  endgame with 12 pieces or fewer and middlegame with more. Move 10 is opening, move 11
  with 13 pieces is middlegame, and 12 pieces from move 11 on is endgame. The loop files
  the accuracy of the ply under that phase.
\<close>

theorem phase_boundaries:
  "determinePhase (i div 2 + 1) pcs =
     (if i div 2 + 1 \<le> 10 then Opening else if pcs \<le> 12 then Endgame else Middlegame) \<and>
   (i div 2 + 1 = 10 \<longrightarrow> determinePhase (i div 2 + 1) pcs = Opening) \<and>
   (i div 2 + 1 = 11 \<longrightarrow> determinePhase (i div 2 + 1) 13 = Middlegame) \<and>
   (11 \<le> i div 2 + 1 \<longrightarrow> determinePhase (i div 2 + 1) 12 = Endgame) \<and>
   v_phases (playerPly fmt c i p s) =
     bump (v_phases s) (determinePhase (i div 2 + 1) (pieces p))
       (moveAccuracyOf (evalDropOf c (v_previousEval s) (evalAfterMove p)))"
  by (simp add: determinePhase_def playerPly_phases)

theorem phase_boundaries_witness:
  "determinePhase (19 div 2 + 1) 32 = Opening \<and>
   determinePhase (20 div 2 + 1) 13 = Middlegame \<and>
   determinePhase (57 div 2 + 1) 12 = Endgame"
  using phase_boundaries [of 19 32] phase_boundaries [of 20] phase_boundaries [of 57]
  by simp

text \<open>
  Claim C8. For every pair of raw scores, the previous one and the one after the move,
  classifying for Black with both scores negated gives the severity and the accuracy
  that classifying for White gives with the scores as they are; the whole loop body
  then leaves the same state, the stored raw score apart, which is negated.
\<close>

theorem perspective_symmetry:
  "classifyMistake (evalDropOf Black (- prev) (- after)) =
     classifyMistake (evalDropOf White prev after) \<and>
   moveAccuracyOf (evalDropOf Black (- prev) (- after)) =
     moveAccuracyOf (evalDropOf White prev after) \<and>
   playerPly fmt Black i (p\<lparr>evalAfterMove := - evalAfterMove p\<rparr>)
       (s\<lparr>v_previousEval := - v_previousEval s\<rparr>) =
     (playerPly fmt White i p s)\<lparr>v_previousEval := - evalAfterMove p\<rparr>"
proof -
  have "playerPly fmt Black i (p\<lparr>evalAfterMove := - evalAfterMove p\<rparr>)
       (s\<lparr>v_previousEval := - v_previousEval s\<rparr>) =
     (playerPly fmt White i p s)\<lparr>v_previousEval := - evalAfterMove p\<rparr>"
    by (simp add: playerPly_def Let_def evalDropOf_flip adjust_def
        split: option.split severity.split)
  then show ?thesis by (simp add: evalDropOf_flip)
qed

text \<open>
  Claim C10. Whatever the game and the tracked colour, the report of \<open>analyzeGame\<close> has
  \<open>brilliantMoves = 0\<close>: the branch that increments it is taken only when
  \<open>classifyMistake\<close> returned null, that is when the absolute drop is below 0.5, and
  then the drop is not below \<open>-1\<close>.
\<close>

theorem analyzeGame_brilliantMoves_zero:
  "brilliantMoves (analyzeGame fmt history playerColor) = 0"
  by (simp add: analyzeGame_def report_def loop_brilliant initialVars_def)

section \<open>Properties of the engine adapter\<close>

subsection \<open>The message handler\<close>






lemma messageHandler_requeue:
  "\<not> startsWith message ''bestmove'' \<Longrightarrow> snd (messageHandler message h) = Requeue"
  by (simp add: messageHandler_def Let_def)

subsection \<open>The event loop\<close>

lemma send_fields [simp]:
  "promises (send c e) = promises e" "messageQueue (send c e) = messageQueue e"
  "worker (send c e) = worker e" "ready (send c e) = ready e"
  "window (send c e) = window e" "workers (send c e) = workers e"
  "waiting (send c e) = waiting e" "terminated (send c e) = terminated e"
  "initResolved (send c e) = initResolved e"
  by (simp_all add: send_def split: option.split)

lemma send_posted:
  "posted (send c e) = (case worker e of Some w \<Rightarrow> posted e @ [(w, c)] | None \<Rightarrow> posted e)"
  by (simp add: send_def split: option.split)

lemma executor_fields [simp]:
  "promises (executor k f d e) = promises e"
  "messageQueue (executor k f d e) = messageQueue e @ [newHandler k]"
  "worker (executor k f d e) = worker e" "ready (executor k f d e) = ready e"
  by (simp_all add: executor_def)

lemma executor_posted:
  "worker e = Some w \<Longrightarrow>
   posted (executor k f d e) =
     posted e @ [(w, ''position fen '' @ f), (w, ''go depth '' @ showNat d)]"
  by (simp add: executor_def send_posted)

lemma initialize_promises [simp]: "promises (initialize e) = promises e"
  by (simp add: initialize_def)

lemma analyze_promises: "promises (analyze f d e) = promises e @ [Pending]"
  by (simp add: analyze_def Let_def)

lemma analyze_ready:
  assumes "ready e" and "worker e = Some w"
  shows "posted (analyze f d e) =
           posted e @ [(w, ''position fen '' @ f), (w, ''go depth '' @ showNat d)]"
    and "messageQueue (analyze f d e) = messageQueue e @ [newHandler (length (promises e))]"
  using assms by (simp_all add: analyze_def Let_def executor_posted)

lemma terminate_promises [simp]: "promises (terminate e) = promises e"
  by (simp add: terminate_def split: option.split)

lemma fulfil_no_reject: "Rejected x \<notin> set ps \<Longrightarrow> Rejected x \<notin> set (fulfil k r ps)"
  by (auto simp: fulfil_def dest: set_update_subset_insert [THEN subsetD])

lemma dispatch_promises:
  "Rejected x \<notin> set (promises e) \<Longrightarrow> Rejected x \<notin> set (promises (dispatch m e))"
  by (simp add: dispatch_def fulfil_no_reject split: list.split prod.split outcome.split)

lemma dispatch_requeue:
  assumes "messageQueue e = h # q" and "\<not> startsWith message ''bestmove''"
  shows "messageQueue (dispatch message e) = q @ [fst (messageHandler message h)]"
    and "promises (dispatch message e) = promises e"
proof -
  obtain h1 where "messageHandler message h = (h1, Requeue)"
    using messageHandler_requeue [OF assms(2), of h]
    by (cases "messageHandler message h") simp
  with assms(1)
  show "messageQueue (dispatch message e) = q @ [fst (messageHandler message h)]"
    and "promises (dispatch message e) = promises e"
    by (simp_all add: dispatch_def)
qed

lemma onmessage_other: "message \<noteq> ''uciok'' \<Longrightarrow> onmessage w message e = dispatch message e"
  by (simp add: onmessage_def)

lemma dispatch_other_promises:
  assumes "\<not> startsWith message ''bestmove''"
  shows "promises (dispatch message e) = promises e"
proof (cases "messageQueue e")
  case Nil
  then show ?thesis by (simp add: dispatch_def)
next
  case (Cons h q)
  then show ?thesis using assms by (rule dispatch_requeue(2))
qed

lemma resume_promises [simp]: "promises (resume ws e) = promises e"
  by (induction ws e rule: resume.induct) simp_all

lemma onmessage_other_promises:
  assumes "\<not> startsWith message ''bestmove''"
  shows "promises (onmessage w message e) = promises e"
proof (cases "message = ''uciok''")
  case True
  with assms have "\<not> startsWith ''uciok'' ''bestmove''" by simp
  then have "\<And>e'. promises (dispatch ''uciok'' e') = promises e'"
    by (rule dispatch_other_promises)
  with True show ?thesis by (simp add: onmessage_def Let_def)
next
  case False
  then show ?thesis using assms by (simp add: onmessage_other dispatch_other_promises)
qed

lemma onmessage_promises:
  "Rejected x \<notin> set (promises e) \<Longrightarrow> Rejected x \<notin> set (promises (onmessage w m e))"
  by (simp add: onmessage_def Let_def dispatch_promises)

lemma step_promises:
  "Rejected x \<notin> set (promises e) \<Longrightarrow> Rejected x \<notin> set (promises (step e ev))"
  by (cases ev) (simp_all add: analyze_promises onmessage_promises)

lemma run_promises:
  "Rejected x \<notin> set (promises e) \<Longrightarrow> Rejected x \<notin> set (promises (run evs e))"
  unfolding run_def by (induction evs arbitrary: e) (simp_all add: step_promises)

lemma evaluatePosition_Rejected: "evaluatePosition p = Rejected x \<longleftrightarrow> p = Rejected x"
  by (simp add: evaluatePosition_def split: promise.split)

lemma analyze_restarts:
  assumes "window e" and "worker e = Some w"
  shows "worker (analyze f d (terminate e)) = Some (workers e)"
    and "posted (analyze f d (terminate e)) = posted e @ [(workers e, ''uci'')]"
    and "promises (analyze f d (terminate e)) = promises e @ [Pending]"
  using assms
  by (simp_all add: analyze_def terminate_def initialize_def Let_def send_posted)












text \<open>
  Claim C4, as the spec states it: of two \<open>analyze\<close> calls the second writes its command
  lines only after the promise of the first is settled, and the requests are served in
  the order of the calls. On a ready engine two calls in a row write all four lines while
  both promises are pending; and when the worker then answers the first request with an
  info line and a \<open>bestmove\<close> line, the info line goes to the handler of the first
  request and the \<open>bestmove\<close> line to the handler of the second, which is resolved with
  evaluation 0 while the first stays pending.
\<close>

theorem submit_order_counterexample:
  "posted (run [Initialize, WorkerMessage 0 ''uciok'',
                Analyze ''K6k/8/8/8/8/8/8/R7 w - - 0 1'' 15,
                Analyze ''K6k/8/8/8/8/8/8/R7 b - - 1 1'' 12] (newEngine True)) =
     [(0, ''uci''), (0, ''setoption name Threads value 2''),
      (0, ''setoption name Hash value 128''),
      (0, ''position fen K6k/8/8/8/8/8/8/R7 w - - 0 1''), (0, ''go depth 15''),
      (0, ''position fen K6k/8/8/8/8/8/8/R7 b - - 1 1''), (0, ''go depth 12'')] \<and>
   promises (run [Initialize, WorkerMessage 0 ''uciok'',
                  Analyze ''K6k/8/8/8/8/8/8/R7 w - - 0 1'' 15,
                  Analyze ''K6k/8/8/8/8/8/8/R7 b - - 1 1'' 12] (newEngine True)) =
     [Pending, Pending] \<and>
   promises (run [Initialize, WorkerMessage 0 ''uciok'',
                  Analyze ''K6k/8/8/8/8/8/8/R7 w - - 0 1'' 15,
                  Analyze ''K6k/8/8/8/8/8/8/R7 b - - 1 1'' 12,
                  WorkerMessage 0 ''info depth 15 score cp 512 pv a1h1'',
                  WorkerMessage 0 ''bestmove a1h1''] (newEngine True)) =
     [Pending,
      Fulfilled \<lparr>move = ''a1h1'', evaluation = 0, mate = None, depth = 0, pv = []\<rparr>]"
  by code_simp

text \<open>
  Claim C4, amended. A call of \<open>analyze\<close> on a ready engine writes its two command lines
  at once, whether or not earlier requests are pending, and puts its handler at the end
  of the handler queue. A message of a live worker, other than \<open>uciok\<close>, goes to the
  handler at the head of the queue, and unless the message starts with \<open>bestmove\<close> that
  handler moves to the end of the queue and no promise changes; so the requests are
  served one at a time only as long as one handler is queued, that is when each call
  waits for the promise of the call before it.
\<close>

theorem analyze_writes_at_once:
  "(ready e \<and> worker e = Some w \<longrightarrow>
      posted (analyze f d e) =
        posted e @ [(w, ''position fen '' @ f), (w, ''go depth '' @ showNat d)] \<and>
      messageQueue (analyze f d e) = messageQueue e @ [newHandler (length (promises e))] \<and>
      promises (analyze f d e) = promises e @ [Pending]) \<and>
   (w' < workers e \<and> w' \<notin> set (terminated e) \<and> message \<noteq> ''uciok'' \<and>
    \<not> startsWith message ''bestmove'' \<and> messageQueue e = h # q \<longrightarrow>
      messageQueue (step e (WorkerMessage w' message)) = q @ [fst (messageHandler message h)] \<and>
      promises (step e (WorkerMessage w' message)) = promises e)"
  by (simp add: analyze_ready analyze_promises onmessage_other dispatch_requeue)

theorem analyze_writes_at_once_witness:
  "ready (run [Initialize, WorkerMessage 0 ''uciok'',
               Analyze ''K6k/8/8/8/8/8/8/R7 w - - 0 1'' 15] (newEngine True)) \<and>
   worker (run [Initialize, WorkerMessage 0 ''uciok'',
                Analyze ''K6k/8/8/8/8/8/8/R7 w - - 0 1'' 15] (newEngine True)) = Some 0 \<and>
   promises (analyze ''K6k/8/8/8/8/8/8/R7 b - - 1 1'' 12
     (run [Initialize, WorkerMessage 0 ''uciok'',
           Analyze ''K6k/8/8/8/8/8/8/R7 w - - 0 1'' 15] (newEngine True))) =
     [Pending, Pending] \<and>
   posted (analyze ''K6k/8/8/8/8/8/8/R7 b - - 1 1'' 12
     (run [Initialize, WorkerMessage 0 ''uciok'',
           Analyze ''K6k/8/8/8/8/8/8/R7 w - - 0 1'' 15] (newEngine True))) =
     posted (run [Initialize, WorkerMessage 0 ''uciok'',
           Analyze ''K6k/8/8/8/8/8/8/R7 w - - 0 1'' 15] (newEngine True)) @
     [(0, ''position fen K6k/8/8/8/8/8/8/R7 b - - 1 1''), (0, ''go depth 12'')] \<and>
   messageQueue (step
     (run [Initialize, WorkerMessage 0 ''uciok'',
           Analyze ''K6k/8/8/8/8/8/8/R7 w - - 0 1'' 15,
           Analyze ''K6k/8/8/8/8/8/8/R7 b - - 1 1'' 12] (newEngine True))
     (WorkerMessage 0 ''info depth 15 score cp 512 pv a1h1'')) =
     [newHandler 1,
      fst (messageHandler ''info depth 15 score cp 512 pv a1h1'' (newHandler 0))]"
proof -
  let ?e1 = "run [Initialize, WorkerMessage 0 ''uciok'',
                  Analyze ''K6k/8/8/8/8/8/8/R7 w - - 0 1'' 15] (newEngine True)"
  let ?e2 = "run [Initialize, WorkerMessage 0 ''uciok'',
                  Analyze ''K6k/8/8/8/8/8/8/R7 w - - 0 1'' 15,
                  Analyze ''K6k/8/8/8/8/8/8/R7 b - - 1 1'' 12] (newEngine True)"
  let ?msg = "''info depth 15 score cp 512 pv a1h1''"
  have r: "ready ?e1" by code_simp
  have w: "worker ?e1 = Some 0" by code_simp
  have pr: "promises ?e1 = [Pending]" by code_simp
  have sn: "showNat 12 = ''12''" by code_simp
  have a: "0 < workers ?e2" by code_simp
  have b: "0 \<notin> set (terminated ?e2)" by code_simp
  have c: "?msg \<noteq> ''uciok''" by simp
  have d: "\<not> startsWith ?msg ''bestmove''" by code_simp
  have q: "messageQueue ?e2 = newHandler 0 # [newHandler 1]" by code_simp
  from analyze_writes_at_once [of ?e1 0 "''K6k/8/8/8/8/8/8/R7 b - - 1 1''" 12] r w pr sn
  have one: "promises (analyze ''K6k/8/8/8/8/8/8/R7 b - - 1 1'' 12 ?e1) = [Pending, Pending]"
    and two: "posted (analyze ''K6k/8/8/8/8/8/8/R7 b - - 1 1'' 12 ?e1) =
      posted ?e1 @ [(0, ''position fen K6k/8/8/8/8/8/8/R7 b - - 1 1''), (0, ''go depth 12'')]"
    by simp_all
  from analyze_writes_at_once [of ?e2 _ _ _ 0 ?msg "newHandler 0" "[newHandler 1]"] a b c d q
  have three: "messageQueue (step ?e2 (WorkerMessage 0 ?msg)) =
      [newHandler 1, fst (messageHandler ?msg (newHandler 0))]"
    by simp
  from r w one two three show ?thesis by blast
qed

text \<open>
  Claim C5, as the spec states it: \<open>terminate\<close> while a request is pending rejects its
  promise with \<open>EngineTerminated\<close>. After \<open>terminate\<close> the promise of the pending
  request is still pending.
\<close>

theorem terminate_counterexample:
  "promises (run [Initialize, WorkerMessage 0 ''uciok'',
                  Analyze ''K6k/8/8/8/8/8/8/R7 w - - 0 1'' 15,
                  Terminate] (newEngine True)) ! 0 = Pending \<and>
   promises (run [Initialize, WorkerMessage 0 ''uciok'',
                  Analyze ''K6k/8/8/8/8/8/8/R7 w - - 0 1'' 15,
                  Terminate] (newEngine True)) ! 0 \<noteq> Rejected ''EngineTerminated''"
  by code_simp

text \<open>
  Claim C5, amended. \<open>terminate\<close> settles no promise: it leaves every promise, the
  handler queue and the lines written as they are. It terminates the worker of the
  engine and drops it, clearing \<open>ready\<close> when there was one; nothing else of the engine
  changes, and a message of the terminated worker has no effect afterwards. A pending
  promise is neither rejected nor resolved by it.
\<close>

theorem terminate_settles_nothing:
  "promises (terminate e) = promises e \<and>
   messageQueue (terminate e) = messageQueue e \<and>
   posted (terminate e) = posted e \<and>
   worker (terminate e) = None \<and>
   ready (terminate e) = (ready e \<and> worker e = None) \<and>
   terminated (terminate e) =
     (case worker e of Some w \<Rightarrow> w # terminated e | None \<Rightarrow> terminated e) \<and>
   window (terminate e) = window e \<and>
   workers (terminate e) = workers e \<and>
   initResolved (terminate e) = initResolved e \<and>
   waiting (terminate e) = waiting e \<and>
   step e Terminate = terminate e \<and>
   (worker e = Some w \<longrightarrow>
      step (terminate e) (WorkerMessage w message) = terminate e)"
  by (simp add: terminate_def split: option.split)

theorem terminate_settles_nothing_witness:
  "worker (run [Initialize, WorkerMessage 0 ''uciok'',
                Analyze ''K6k/8/8/8/8/8/8/R7 w - - 0 1'' 15] (newEngine True)) = Some 0 \<and>
   terminated (terminate (run [Initialize, WorkerMessage 0 ''uciok'',
                Analyze ''K6k/8/8/8/8/8/8/R7 w - - 0 1'' 15] (newEngine True))) = [0] \<and>
   promises (step (terminate (run [Initialize, WorkerMessage 0 ''uciok'',
                Analyze ''K6k/8/8/8/8/8/8/R7 w - - 0 1'' 15] (newEngine True)))
              (WorkerMessage 0 ''bestmove a1h1'')) = [Pending]"
proof -
  let ?e = "run [Initialize, WorkerMessage 0 ''uciok'',
                 Analyze ''K6k/8/8/8/8/8/8/R7 w - - 0 1'' 15] (newEngine True)"
  have wo: "worker ?e = Some 0" by code_simp
  have te: "terminated ?e = []" by code_simp
  have pr: "promises ?e = [Pending]" by code_simp
  from terminate_settles_nothing [of ?e 0 "''bestmove a1h1''"] wo te pr
  have "terminated (terminate ?e) = [0]"
    and "promises (step (terminate ?e) (WorkerMessage 0 ''bestmove a1h1'')) = [Pending]"
    by simp_all
  with wo show ?thesis by blast
qed

text \<open>
  Claim C6, as the spec states it: \<open>analyze\<close> and \<open>evaluatePosition\<close> fail with
  \<open>EvaluationTimeout\<close> when the promise is not resolved in bounded time and with
  \<open>EngineUnavailable\<close> when the engine was stopped. A call on a stopped engine is not
  rejected: it constructs a new worker and waits for it, and when that worker answers,
  \<open>evaluatePosition\<close> is fulfilled with the score.
\<close>

theorem stopped_engine_counterexample:
  "promises (run [Initialize, WorkerMessage 0 ''uciok'', Terminate,
                  Analyze ''K6k/8/8/8/8/8/8/R7 w - - 0 1'' 12] (newEngine True)) ! 0 = Pending \<and>
   promises (run [Initialize, WorkerMessage 0 ''uciok'', Terminate,
                  Analyze ''K6k/8/8/8/8/8/8/R7 w - - 0 1'' 12] (newEngine True)) ! 0
     \<noteq> Rejected ''EngineUnavailable'' \<and>
   worker (run [Initialize, WorkerMessage 0 ''uciok'', Terminate,
                Analyze ''K6k/8/8/8/8/8/8/R7 w - - 0 1'' 12] (newEngine True)) = Some 1 \<and>
   evaluatePosition
     (promises (run [Initialize, WorkerMessage 0 ''uciok'', Terminate,
                     Analyze ''K6k/8/8/8/8/8/8/R7 w - - 0 1'' 12,
                     WorkerMessage 1 ''uciok'',
                     WorkerMessage 1 ''info depth 12 score cp 512 pv a1h1'',
                     WorkerMessage 1 ''bestmove a1h1''] (newEngine True)) ! 0) =
     Fulfilled (512 / 100)"
  by code_simp

text \<open>
  Claim C6, amended. \<open>analyze\<close> and \<open>evaluatePosition\<close> never fail: whatever calls and
  worker messages happen to a new engine, no promise of \<open>analyze\<close> is rejected, and so
  none of \<open>evaluatePosition\<close>. No call and no message other than a \<open>bestmove\<close> line
  changes a promise that exists, so a request without such a line stays pending. A call
  on an engine that was stopped, where \<open>window\<close> is defined, constructs a new worker,
  sends it \<open>uci\<close> and returns a pending promise.
\<close>

theorem analyze_never_rejects:
  "Rejected x \<notin> set (promises (run evs (newEngine win))) \<and>
   Rejected x \<notin> evaluatePosition ` set (promises (run evs (newEngine win))) \<and>
   promises (step e Initialize) = promises e \<and>
   promises (step e Terminate) = promises e \<and>
   promises (step e (Analyze f d)) = promises e @ [Pending] \<and>
   (\<not> startsWith message ''bestmove'' \<longrightarrow>
      promises (step e (WorkerMessage w' message)) = promises e) \<and>
   (window e \<and> worker e = Some w \<longrightarrow>
      worker (analyze f d (terminate e)) = Some (workers e) \<and>
      posted (analyze f d (terminate e)) = posted e @ [(workers e, ''uci'')] \<and>
      promises (analyze f d (terminate e)) = promises e @ [Pending])"
proof -
  have a: "Rejected x \<notin> set (promises (run evs (newEngine win)))"
    by (rule run_promises) (simp add: newEngine_def)
  then have b: "Rejected x \<notin> evaluatePosition ` set (promises (run evs (newEngine win)))"
    by (metis evaluatePosition_Rejected imageE)
  show ?thesis
    using a b by (simp add: analyze_restarts analyze_promises onmessage_other_promises)
qed

theorem analyze_never_rejects_witness:
  "window (run [Initialize, WorkerMessage 0 ''uciok''] (newEngine True)) \<and>
   worker (run [Initialize, WorkerMessage 0 ''uciok''] (newEngine True)) = Some 0 \<and>
   worker (analyze ''K6k/8/8/8/8/8/8/R7 w - - 0 1'' 12
     (terminate (run [Initialize, WorkerMessage 0 ''uciok''] (newEngine True)))) = Some 1 \<and>
   promises (analyze ''K6k/8/8/8/8/8/8/R7 w - - 0 1'' 12
     (terminate (run [Initialize, WorkerMessage 0 ''uciok''] (newEngine True)))) = [Pending] \<and>
   \<not> startsWith ''info depth 12 score cp 512 pv a1h1'' ''bestmove'' \<and>
   promises (step
     (run [Initialize, WorkerMessage 0 ''uciok'',
           Analyze ''K6k/8/8/8/8/8/8/R7 w - - 0 1'' 12] (newEngine True))
     (WorkerMessage 0 ''info depth 12 score cp 512 pv a1h1'')) = [Pending]"
proof -
  let ?e = "run [Initialize, WorkerMessage 0 ''uciok''] (newEngine True)"
  let ?e1 = "run [Initialize, WorkerMessage 0 ''uciok'',
                  Analyze ''K6k/8/8/8/8/8/8/R7 w - - 0 1'' 12] (newEngine True)"
  let ?msg = "''info depth 12 score cp 512 pv a1h1''"
  have wi: "window ?e" by code_simp
  have wo: "worker ?e = Some 0" by code_simp
  have ws: "workers ?e = 1" by code_simp
  have pr: "promises ?e = []" by code_simp
  have nb: "\<not> startsWith ?msg ''bestmove''" by code_simp
  have p1: "promises ?e1 = [Pending]" by code_simp
  from analyze_never_rejects [of _ _ _ ?e "''K6k/8/8/8/8/8/8/R7 w - - 0 1''" 12 _ _ 0]
    wi wo ws pr
  have one: "worker (analyze ''K6k/8/8/8/8/8/8/R7 w - - 0 1'' 12 (terminate ?e)) = Some 1"
    and two: "promises (analyze ''K6k/8/8/8/8/8/8/R7 w - - 0 1'' 12 (terminate ?e)) = [Pending]"
    by simp_all
  from analyze_never_rejects [of _ _ _ ?e1 _ _ ?msg 0] nb p1
  have three: "promises (step ?e1 (WorkerMessage 0 ?msg)) = [Pending]"
    by simp
  from wi wo one two nb three show ?thesis by blast
qed




end
